theory Spec2Isabelle
  imports Main "HOL-Library.Sublist" "HOL-Library.Char_ord" "HOL-Library.List_Lexorder"
begin

section \<open>Values and the table frame\<close>

text \<open>
  The frame engine is TypeScript: \<^verbatim>\<open>src/frontend/src/lib/Quiver.ts\<close> (the class
  \<^verbatim>\<open>Quiver\<close>: dimensions and cell addressing) and the module it imports as
  \<^verbatim>\<open>src/lib/arrowProto\<close> (parsing, concatenation, comparison).

  Cell and index values are declared \<^verbatim>\<open>any\<close>. The model covers the values the
  engine itself computes with: \<^verbatim>\<open>undefined\<close>, \<^verbatim>\<open>null\<close>, booleans, numbers
  and strings. A number is an integer or \<^verbatim>\<open>NaN\<close>: the range arithmetic of the
  engine adds integers, and an unbounded \<open>int\<close> stands for the double that holds them
  (exact below \<open>2^53\<close>).
\<close>

datatype jsval = JUndefined | JNull | JBool bool | JNum int | JNaN | JStr string

text \<open>An object is its list of properties; \<^verbatim>\<open>meta: any\<close> is an object, or
  \<open>None\<close> for \<^verbatim>\<open>null\<close> and \<^verbatim>\<open>undefined\<close>.\<close>

type_synonym jsobject = "(string \<times> jsval) list"

text \<open>\<^verbatim>\<open>o.k\<close>: the property, or \<^verbatim>\<open>undefined\<close> when the object has none.\<close>

definition getProp :: "jsobject \<Rightarrow> string \<Rightarrow> jsval" where
  "getProp obj k = (case map_of obj k of None \<Rightarrow> JUndefined | Some v \<Rightarrow> v)"

text \<open>\<^verbatim>\<open>o.k = v\<close>: overwrites the property where it stands, or adds it last.\<close>

fun setProp :: "jsobject \<Rightarrow> string \<Rightarrow> jsval \<Rightarrow> jsobject" where
  "setProp [] k v = [(k, v)]"
| "setProp ((k', v') # obj) k v = (if k' = k then (k, v) # obj else (k', v') # setProp obj k v)"

text \<open>\<^verbatim>\<open>xs[i]\<close> on an array: \<^verbatim>\<open>undefined\<close> (here \<open>None\<close>) out of range.\<close>

definition nth_opt :: "'a list \<Rightarrow> int \<Rightarrow> 'a option" where
  "nth_opt xs i = (if 0 \<le> i \<and> i < int (length xs) then Some (xs ! nat i) else None)"

text \<open>\<^verbatim>\<open>IndexType\<close>. The name is declared a string; \<^verbatim>\<open>getIndexType\<close> leaves it
  \<^verbatim>\<open>undefined\<close> (\<open>None\<close>) for an index column the schema does not describe.\<close>

record IndexType =
  name :: "string option"
  meta :: "jsobject option"

record Index =
  idx_data :: "jsval list list"
  idx_type :: "IndexType list"

record Data =
  dat_data :: "jsval list list"
  dat_type :: "string list"

text \<open>\<^verbatim>\<open>Columns = string[][]\<close>; a label is \<open>None\<close> where \<^verbatim>\<open>unzip\<close> filled a
  ragged label tuple with \<^verbatim>\<open>undefined\<close>.\<close>

type_synonym Columns = "string option list list"

text \<open>The class \<^verbatim>\<open>Quiver\<close> and the interface \<^verbatim>\<open>DataFrame\<close> have the same
  four fields, and the constructor copies them: one type models both. The styler's
  \<^verbatim>\<open>displayValues\<close> is a frame again.\<close>

datatype Quiver =
  Quiver (index: Index) (columns: Columns) (data: Data) (styler: "Styler option")
and Styler =
  Styler (uuid: string) (caption: "string option") (styles: "string option")
    (displayValues: "Quiver option")

datatype axis = Row | Column

text \<open>Every \<^verbatim>\<open>throw\<close> of the engine, by its message; the two mismatch errors of
  concatenation carry the type descriptors their messages embed. \<open>TypeError\<close> is the
  runtime's own error on reading a property of \<^verbatim>\<open>undefined\<close> or \<^verbatim>\<open>null\<close>,
  \<open>SyntaxError\<close> that of \<^verbatim>\<open>JSON.parse\<close>. \<open>Rethrown e\<close> is
  \<^verbatim>\<open>new Error(e)\<close>, the wrapping of \<^verbatim>\<open>parseTable\<close>'s \<^verbatim>\<open>catch\<close>.\<close>

datatype error =
    SchemaMissing
  | DimensionMismatch int int int int
  | IndexOutOfRange axis
  | StyledConcatUnsupported
  | IndexTypeMismatch "IndexType list" "IndexType list"
  | DataTypeMismatch "string list" "string list"
  | TypeError
  | SyntaxError
  | Rethrown error

section \<open>Dimensions\<close>

record TableDimensions =
  headerRows :: int
  headerColumns :: int
  dataRows :: int
  dataColumns :: int
  rows :: int
  columns' :: int

text \<open>The getter \<^verbatim>\<open>Quiver.dimensions\<close>. Each of the three pairs is read off the
  first element of a non-empty array, else it is the default of the source.\<close>

definition dimensions :: "Quiver \<Rightarrow> error + TableDimensions" where
  "dimensions q =
    (let (headerColumns, dataRowsCheck) =
           (case idx_data (index q) of
              [] \<Rightarrow> (0, 0)
            | l # _ \<Rightarrow> (int (length (idx_data (index q))), int (length l)));
         (headerRows, dataColumnsCheck) =
           (case columns q of
              [] \<Rightarrow> (1, 0)
            | l # _ \<Rightarrow> (int (length (columns q)), int (length l)));
         (dataRows, dataColumns) =
           (case dat_data (data q) of
              [] \<Rightarrow> (0, dataColumnsCheck)
            | r # _ \<Rightarrow> (int (length (dat_data (data q))), int (length r)))
     in if (dataRows \<noteq> 0 \<and> dataRows \<noteq> dataRowsCheck) \<or>
           (dataColumns \<noteq> 0 \<and> dataColumns \<noteq> dataColumnsCheck)
        then Inl (DimensionMismatch dataRows dataRowsCheck dataColumns dataColumnsCheck)
        else Inr \<lparr> headerRows = headerRows, headerColumns = headerColumns,
                   dataRows = dataRows, dataColumns = dataColumns,
                   rows = headerRows + dataRows, columns' = headerColumns + dataColumns \<rparr>)"

section \<open>Cell addressing\<close>

datatype TableCellType = Blank | IndexCell | ColumnsCell | DataCell

text \<open>\<^verbatim>\<open>TableCell\<close>. The content is declared a string; a column label read out of
  a ragged label row is \<^verbatim>\<open>undefined\<close> (\<open>None\<close>).\<close>

record TableCell =
  cellType :: TableCellType
  cellId :: "string option"
  classNames :: string
  content :: "string option"

text \<open>A non-negative integer in a template literal: its decimal digits.\<close>

fun showNat :: "nat \<Rightarrow> string" where
  "showNat n = (if n < 10 then [''0123456789'' ! n]
                else showNat (n div 10) @ [''0123456789'' ! (n mod 10)])"

definition showInt :: "int \<Rightarrow> string" where
  "showInt i = (if i < 0 then CHR ''-'' # showNat (nat (- i)) else showNat (nat i))"

text \<open>\<^verbatim>\<open>Array.prototype.join\<close>.\<close>

fun join :: "string \<Rightarrow> string list \<Rightarrow> string" where
  "join sep [] = []"
| "join sep [x] = x"
| "join sep (x # y # ys) = x @ sep @ join sep (y # ys)"

text \<open>\<^verbatim>\<open>Quiver.getCell\<close>. The formatter \<^verbatim>\<open>betaToFormattedString\<close> of
  \<^verbatim>\<open>src/lib/format\<close> is not among the sources: it is the parameter \<open>fmt\<close>, taking
  the raw value and the type tag (either may be \<^verbatim>\<open>undefined\<close>) and returning a
  string; a formatter that throws is outside the model. Coordinates are integers. The getter \<^verbatim>\<open>dimensions\<close> is evaluated first and its error propagates.
  A data cell of a frame styled with display values takes its content from the cell of
  the display-values frame at the same grid coordinates, whose errors propagate too.
  \<^verbatim>\<open>uuid ? ... : undefined\<close> tests the string for truthiness: the empty string is
  falsy. The method assigns to no field of the frame, so the model returns no frame.\<close>

fun getCell :: "(jsval \<Rightarrow> string option \<Rightarrow> string) \<Rightarrow> Quiver \<Rightarrow> int \<Rightarrow> int
    \<Rightarrow> error + TableCell" where
  "getCell fmt (Quiver idx cols dat sty) rowIndex columnIndex =
    (case dimensions (Quiver idx cols dat sty) of
       Inl e \<Rightarrow> Inl e
     | Inr d \<Rightarrow>
        if rowIndex < 0 \<or> rowIndex \<ge> rows d then Inl (IndexOutOfRange Row)
        else if columnIndex < 0 \<or> columnIndex \<ge> columns' d then Inl (IndexOutOfRange Column)
        else
          let isBlankCell = (rowIndex < headerRows d \<and> columnIndex < headerColumns d);
              isIndexCell = (rowIndex \<ge> headerRows d \<and> columnIndex < headerColumns d);
              isColumnsCell = (rowIndex < headerRows d \<and> columnIndex \<ge> headerColumns d)
          in
          if isBlankCell then
            Inr \<lparr> cellType = Blank, cellId = None,
                  classNames = join '' ''
                    (if columnIndex > 0 then [''blank'', ''level'' @ showInt rowIndex]
                     else [''blank'']),
                  content = Some [] \<rparr>
          else if isIndexCell then
            (let dataRowIndex = rowIndex - headerRows d;
                 uuid = map_option uuid sty
             in case nth_opt (idx_type idx) columnIndex of
                  None \<Rightarrow> Inl TypeError
                | Some t \<Rightarrow>
                   (case nth_opt (idx_data idx) columnIndex of
                      None \<Rightarrow> Inl TypeError
                    | Some level \<Rightarrow>
                       Inr \<lparr> cellType = IndexCell,
                             cellId = (case uuid of
                                None \<Rightarrow> None
                              | Some u \<Rightarrow> if u \<noteq> [] then
                                  Some (''T_'' @ u @ ''level'' @ showInt columnIndex
                                        @ ''_row'' @ showInt dataRowIndex) else None),
                             classNames = join '' ''
                               [''row_heading'', ''level'' @ showInt columnIndex,
                                ''row'' @ showInt dataRowIndex],
                             content = Some (fmt
                               (case nth_opt level dataRowIndex of
                                  None \<Rightarrow> JUndefined | Some v \<Rightarrow> v)
                               (name t)) \<rparr>))
          else if isColumnsCell then
            (let dataColumnIndex = columnIndex - headerColumns d
             in case nth_opt cols rowIndex of
                  None \<Rightarrow> Inl TypeError
                | Some labels \<Rightarrow>
                   Inr \<lparr> cellType = ColumnsCell, cellId = None,
                         classNames = join '' ''
                           [''col_heading'', ''level'' @ showInt rowIndex,
                            ''col'' @ showInt dataColumnIndex],
                         content = (case nth_opt labels dataColumnIndex of
                                      None \<Rightarrow> None | Some l \<Rightarrow> l) \<rparr>)
          else
            (let dataRowIndex = rowIndex - headerRows d;
                 dataColumnIndex = columnIndex - headerColumns d;
                 uuid = map_option uuid sty;
                 contentType = nth_opt (dat_type dat) dataColumnIndex;
                 finish = (\<lambda>content.
                   Inr \<lparr> cellType = DataCell,
                         cellId = (case uuid of
                            None \<Rightarrow> None
                          | Some u \<Rightarrow> if u \<noteq> [] then
                              Some (''T_'' @ u @ ''row'' @ showInt dataRowIndex
                                    @ ''_col'' @ showInt dataColumnIndex) else None),
                         classNames = join '' ''
                           [''data'', ''row'' @ showInt dataRowIndex,
                            ''col'' @ showInt dataColumnIndex],
                         content = content \<rparr>)
             in case sty of
                  Some (Styler u cap st (Some dv)) \<Rightarrow>
                    (case getCell fmt dv rowIndex columnIndex of
                       Inl e \<Rightarrow> Inl e
                     | Inr c \<Rightarrow> finish (content c))
                | _ \<Rightarrow>
                    (case nth_opt (dat_data dat) dataRowIndex of
                       None \<Rightarrow> Inl TypeError
                     | Some r \<Rightarrow>
                        finish (Some (fmt
                          (case nth_opt r dataColumnIndex of
                             None \<Rightarrow> JUndefined | Some v \<Rightarrow> v)
                          contentType)))))"

declare showNat.simps [simp del]

section \<open>Concatenation\<close>

text \<open>The operator \<^verbatim>\<open>+\<close> (and \<^verbatim>\<open>+=\<close>) on the values of the model: string
  concatenation when either operand is a string, else addition of numbers, where
  \<^verbatim>\<open>undefined\<close> and \<^verbatim>\<open>NaN\<close> make the sum \<^verbatim>\<open>NaN\<close>.\<close>

fun toStr :: "jsval \<Rightarrow> string" where
  "toStr JUndefined = ''undefined''"
| "toStr JNull = ''null''"
| "toStr (JBool b) = (if b then ''true'' else ''false'')"
| "toStr (JNum n) = showInt n"
| "toStr JNaN = ''NaN''"
| "toStr (JStr s) = s"

text \<open>The numeric value of an operand that is not a string (\<open>None\<close> is
  \<^verbatim>\<open>NaN\<close>); \<open>jsAdd\<close> never asks it of a string.\<close>

fun toNum :: "jsval \<Rightarrow> int option" where
  "toNum JNull = Some 0"
| "toNum (JBool b) = Some (if b then 1 else 0)"
| "toNum (JNum n) = Some n"
| "toNum _ = None"

fun isStr :: "jsval \<Rightarrow> bool" where
  "isStr (JStr s) = True"
| "isStr _ = False"

definition jsAdd :: "jsval \<Rightarrow> jsval \<Rightarrow> jsval" where
  "jsAdd a b =
    (if isStr a \<or> isStr b then JStr (toStr a @ toStr b)
     else case (toNum a, toNum b) of
            (Some x, Some y) \<Rightarrow> JNum (x + y)
          | _ \<Rightarrow> JNaN)"

text \<open>\<^verbatim>\<open>IndexData\<close>: one index level and its type.\<close>

record IndexData =
  level_data :: "jsval list"
  level_type :: IndexType

text \<open>\<^verbatim>\<open>concatRangeIndex\<close>. The callback of \<^verbatim>\<open>reduce\<close> ignores the element it is
  given: it runs once per element the addition's level had when \<^verbatim>\<open>reduce\<close> was
  called. The state of the loop is \<^verbatim>\<open>newStop\<close>, the data array and the metadata
  object (the accumulator holds the base's own array and type object, which the
  returned level shares). The addition's level is \<open>None\<close> when the addition has no
  level at this position.\<close>

definition concatRangeIndex :: "jsval list \<Rightarrow> jsval list option \<Rightarrow> IndexType
    \<Rightarrow> error + IndexData" where
  "concatRangeIndex firstIndex secondIndex indexType =
    (case meta indexType of
       None \<Rightarrow> Inl TypeError
     | Some m \<Rightarrow>
        (case secondIndex of
           None \<Rightarrow> Inl TypeError
         | Some second \<Rightarrow>
            (let (newStop, newData, newMeta) =
                   fold (\<lambda>_ (newStop, dat, m).
                           (let newStop' = jsAdd newStop (getProp m ''step'')
                            in (newStop', dat @ [newStop], setProp m ''stop'' newStop')))
                        second (getProp m ''stop'', firstIndex, m)
             in Inr \<lparr> level_data = newData,
                      level_type = indexType \<lparr> meta := Some newMeta \<rparr> \<rparr>)))"

text \<open>\<^verbatim>\<open>concatAnyIndex\<close>. \<^verbatim>\<open>firstIndex.concat(undefined)\<close> appends the one
  element \<^verbatim>\<open>undefined\<close>.\<close>

definition concatAnyIndex :: "jsval list \<Rightarrow> jsval list option \<Rightarrow> IndexType
    \<Rightarrow> error + IndexData" where
  "concatAnyIndex firstIndex secondIndex indexType =
    (let concatenatedIndex =
           (case secondIndex of None \<Rightarrow> firstIndex @ [JUndefined]
                              | Some second \<Rightarrow> firstIndex @ second)
     in if name indexType = Some ''categorical'' then
          (case meta indexType of
             None \<Rightarrow> Inl TypeError
           | Some m \<Rightarrow>
              (case secondIndex of
                 None \<Rightarrow> Inl TypeError
               | Some second \<Rightarrow>
                  Inr \<lparr> level_data = concatenatedIndex,
                        level_type = indexType \<lparr> meta := Some
                          (setProp m ''num_categories''
                             (jsAdd (getProp m ''num_categories'')
                                    (JNum (int (length second))))) \<rparr> \<rparr>))
        else Inr \<lparr> level_data = concatenatedIndex, level_type = indexType \<rparr>)"

text \<open>\<^verbatim>\<open>concatIndex\<close>. The type is \<open>None\<close> when the base has no type at this
  position: reading its name is then a \<open>TypeError\<close>.\<close>

definition concatIndex :: "jsval list \<Rightarrow> jsval list option \<Rightarrow> IndexType option
    \<Rightarrow> error + IndexData" where
  "concatIndex firstIndex secondIndex indexType =
    (case indexType of
       None \<Rightarrow> Inl TypeError
     | Some t \<Rightarrow>
        if name t = Some ''range'' then concatRangeIndex firstIndex secondIndex t
        else concatAnyIndex firstIndex secondIndex t)"

text \<open>\<^verbatim>\<open>sameIndexTypes\<close>: the lengths first, then the names position by position.\<close>

definition sameIndexTypes :: "IndexType list \<Rightarrow> IndexType list \<Rightarrow> bool" where
  "sameIndexTypes firstType secondType =
    (if length firstType \<noteq> length secondType then False
     else list_all (\<lambda>(firstTypeValue, secondTypeValue).
                      name firstTypeValue = name secondTypeValue)
                   (zip firstType secondType))"

text \<open>\<^verbatim>\<open>sameDataColumnTypes\<close>: every tag of the first sequence is compared with
  the element of the second at its position, which is \<^verbatim>\<open>undefined\<close> (and so
  unequal to a tag) past the end. The lengths are not compared.\<close>

definition sameDataColumnTypes :: "string list \<Rightarrow> string list \<Rightarrow> bool" where
  "sameDataColumnTypes firstType secondType =
    list_all (\<lambda>(index, firstTypeValue). nth_opt secondType (int index) = Some firstTypeValue)
             (enumerate 0 firstType)"

text \<open>The \<^verbatim>\<open>reduce\<close> of \<^verbatim>\<open>concatIndices\<close> over the base's levels, from position
  \<open>i\<close> on, stopping at the first error.\<close>

fun concatIndices_reduce :: "Index \<Rightarrow> Index \<Rightarrow> jsval list list \<Rightarrow> int \<Rightarrow> Index
    \<Rightarrow> error + Index" where
  "concatIndices_reduce firstIndices secondIndices [] i newIndex = Inr newIndex"
| "concatIndices_reduce firstIndices secondIndices (firstIndexData # levels) i newIndex =
    (case concatIndex firstIndexData (nth_opt (idx_data secondIndices) i)
                      (nth_opt (idx_type firstIndices) i) of
       Inl e \<Rightarrow> Inl e
     | Inr concatenatedIndex \<Rightarrow>
        concatIndices_reduce firstIndices secondIndices levels (i + 1)
          \<lparr> idx_data = idx_data newIndex @ [level_data concatenatedIndex],
            idx_type = idx_type newIndex @ [level_type concatenatedIndex] \<rparr>)"

definition concatIndices :: "Index \<Rightarrow> Index \<Rightarrow> error + Index" where
  "concatIndices firstIndices secondIndices =
    (case idx_data firstIndices of
       [] \<Rightarrow> Inl TypeError
     | level0 # _ \<Rightarrow>
        if length level0 = 0 then Inr secondIndices
        else if \<not> sameIndexTypes (idx_type firstIndices) (idx_type secondIndices)
        then Inl (IndexTypeMismatch (idx_type firstIndices) (idx_type secondIndices))
        else concatIndices_reduce firstIndices secondIndices (idx_data firstIndices) 0
               \<lparr> idx_data = [], idx_type = [] \<rparr>)"

text \<open>\<^verbatim>\<open>concatData\<close>; \<^verbatim>\<open>data.slice(0, numberOfColumns)\<close> is \<open>take\<close>.\<close>

definition concatData :: "Data \<Rightarrow> Data \<Rightarrow> error + Data" where
  "concatData firstData secondData =
    (if \<not> sameDataColumnTypes (dat_type firstData) (dat_type secondData)
     then Inl (DataTypeMismatch (dat_type firstData) (dat_type secondData))
     else let numberOfColumns = length (dat_type firstData)
          in Inr \<lparr> dat_data = dat_data firstData
                               @ map (\<lambda>data. take numberOfColumns data) (dat_data secondData),
                   dat_type = dat_type firstData \<rparr>)"

text \<open>\<^verbatim>\<open>isEmptyDf\<close>. \<^verbatim>\<open>&&\<close> evaluates its right operand only when the left one
  is true: the first index level is read only for a frame with no data rows, and
  reading its length is a \<open>TypeError\<close> when the index has no level.\<close>

definition isEmptyDf :: "Quiver \<Rightarrow> error + bool" where
  "isEmptyDf df =
    (if length (dat_data (data df)) = 0 then
       (case idx_data (index df) of
          [] \<Rightarrow> Inl TypeError
        | level0 # _ \<Rightarrow> Inr (length level0 = 0 \<and> length (columns df) = 0))
     else Inr False)"

text \<open>\<^verbatim>\<open>concatTables\<close>. The \<^verbatim>\<open>catch\<close> rethrows \<^verbatim>\<open>new Error(e.message)\<close>:
  the message, by which errors are told apart here, is kept.\<close>

definition concatTables :: "Quiver \<Rightarrow> Quiver \<Rightarrow> error + Quiver" where
  "concatTables df1 df2 =
    (if styler df1 \<noteq> None \<or> styler df2 \<noteq> None then Inl StyledConcatUnsupported
     else case isEmptyDf df1 of
       Inl e \<Rightarrow> Inl e
     | Inr True \<Rightarrow> Inr df2
     | Inr False \<Rightarrow>
        (case isEmptyDf df2 of
           Inl e \<Rightarrow> Inl e
         | Inr True \<Rightarrow> Inr df1
         | Inr False \<Rightarrow>
            (case concatIndices (index df1) (index df2) of
               Inl e \<Rightarrow> Inl e
             | Inr index' \<Rightarrow>
                (case concatData (data df1) (data df2) of
                   Inl e \<Rightarrow> Inl e
                 | Inr data' \<Rightarrow> Inr (Quiver index' (columns df1) data' None)))))"

section \<open>Comparison\<close>





section \<open>Parsing\<close>

text \<open>The schema descriptor: the interfaces \<^verbatim>\<open>Schema\<close>, \<^verbatim>\<open>RangeIndex\<close> (whose
  \<^verbatim>\<open>kind\<close> is the constant \<^verbatim>\<open>"range"\<close>) and \<^verbatim>\<open>SchemaColumn\<close>.\<close>

record RangeIndex =
  ri_name :: "string option"
  start :: int
  step :: int
  stop :: int

text \<open>The descriptor as the object that \<^verbatim>\<open>getIndexType\<close> stores as \<^verbatim>\<open>meta\<close>.\<close>

definition rangeObject :: "RangeIndex \<Rightarrow> jsobject" where
  "rangeObject r =
    [(''kind'', JStr ''range''),
     (''name'', (case ri_name r of None \<Rightarrow> JNull | Some n \<Rightarrow> JStr n)),
     (''start'', JNum (start r)), (''step'', JNum (step r)), (''stop'', JNum (stop r))]"

datatype IndexField = FieldName string | RangeField RangeIndex

record SchemaColumn =
  field_name :: string
  col_metadata :: "jsobject option"
  col_name :: "string option"
  numpy_type :: string
  pandas_type :: string

record Schema =
  index_columns :: "IndexField list"
  schema_columns :: "SchemaColumn list"
  column_indexes :: "jsobject list"

text \<open>The decoded Arrow table, as far as the parser reads it: the metadata map of its
  schema, its length, and its columns in their order, each with its field name and its
  accessor \<^verbatim>\<open>get\<close>. Every column of a table has the table's length. The payload
  \<^verbatim>\<open>IArrow\<close> is taken decoded: \<^verbatim>\<open>Table.from\<close> belongs to the Arrow library.\<close>

record ArrowTable =
  metadata :: "(string \<times> string) list"
  table_length :: nat
  table_columns :: "(string \<times> (nat \<Rightarrow> jsval)) list"

record ArrowStyler =
  as_uuid :: string
  as_caption :: "string option"
  as_styles :: "string option"
  as_displayValues :: ArrowTable

record IArrow =
  ia_data :: ArrowTable
  ia_styler :: "ArrowStyler option"

text \<open>\<^verbatim>\<open>getSchema\<close>. \<^verbatim>\<open>JSON.parse\<close> belongs to the runtime: it is the parameter
  \<open>jsonParse\<close>, \<open>None\<close> where it throws.\<close>

definition getSchema :: "(string \<Rightarrow> Schema option) \<Rightarrow> ArrowTable \<Rightarrow> error + Schema" where
  "getSchema jsonParse table =
    (case map_of (metadata table) ''pandas'' of
       None \<Rightarrow> Inl SchemaMissing
     | Some schema \<Rightarrow>
        (case jsonParse schema of None \<Rightarrow> Inl SyntaxError | Some s \<Rightarrow> Inr s))"

text \<open>Modelled from the spec: lodash's \<^verbatim>\<open>range\<close> is not among the sources. The spec:
  an arithmetic progression \<open>start, start + step, \<dots>\<close> stopping before \<open>stop\<close>.\<close>

definition range' :: "int \<Rightarrow> int \<Rightarrow> int \<Rightarrow> int list" where
  "range' a e s =
    (let d = (if s = 0 then 1 else s)
     in map (\<lambda>i. a + int i * s) [0..<nat (- ((a - e) div d))])"

text \<open>Modelled from the spec: lodash's \<^verbatim>\<open>unzip\<close> is not among the sources. The spec:
  the label tuples are transposed into per-level label rows. A tuple shorter than the
  longest leaves \<^verbatim>\<open>undefined\<close> in the rows it does not reach.\<close>

definition unzip :: "string list list \<Rightarrow> Columns" where
  "unzip tuples =
    map (\<lambda>i. map (\<lambda>t. nth_opt t (int i)) tuples)
        [0..<fold max (map length tuples) 0]"

text \<open>A sequence of results stops at the first error, as the loop that throws does.\<close>

fun sequence :: "(error + 'a) list \<Rightarrow> error + 'a list" where
  "sequence [] = Inr []"
| "sequence (x # xs) =
    (case x of
       Inl e \<Rightarrow> Inl e
     | Inr v \<Rightarrow> (case sequence xs of Inl e \<Rightarrow> Inl e | Inr vs \<Rightarrow> Inr (v # vs)))"

text \<open>\<^verbatim>\<open>getIndex\<close>. A column the table does not have is \<^verbatim>\<open>null\<close>, and reading
  its length in \<^verbatim>\<open>getColumnData\<close> is a \<open>TypeError\<close>.\<close>

definition getColumnData :: "nat \<Rightarrow> (nat \<Rightarrow> jsval) \<Rightarrow> jsval list" where
  "getColumnData len column = map (\<lambda>rowIndex. column rowIndex) [0..<len]"

definition getIndex :: "ArrowTable \<Rightarrow> Schema \<Rightarrow> error + jsval list list" where
  "getIndex table schema =
    sequence (map (\<lambda>field.
      case field of
        RangeField r \<Rightarrow> Inr (map JNum (range' (start r) (stop r) (step r)))
      | FieldName f \<Rightarrow>
         (case map_of (table_columns table) f of
            None \<Rightarrow> Inl TypeError
          | Some column \<Rightarrow> Inr (getColumnData (table_length table) column)))
      (index_columns schema))"

text \<open>\<^verbatim>\<open>getIndexType\<close>. \<^verbatim>\<open>find\<close> gives the first column of that field name, or
  \<^verbatim>\<open>undefined\<close>, and \<^verbatim>\<open>?.\<close> then leaves name and meta \<^verbatim>\<open>undefined\<close>.\<close>

definition getIndexType :: "Schema \<Rightarrow> IndexType list" where
  "getIndexType schema =
    map (\<lambda>indexName.
      case indexName of
        RangeField r \<Rightarrow> \<lparr> name = Some ''range'', meta = Some (rangeObject r) \<rparr>
      | FieldName f \<Rightarrow>
         (case find (\<lambda>column. field_name column = f) (schema_columns schema) of
            None \<Rightarrow> \<lparr> name = None, meta = None \<rparr>
          | Some indexColumn \<Rightarrow>
             \<lparr> name = Some (if pandas_type indexColumn = ''object''
                             then numpy_type indexColumn else pandas_type indexColumn),
               meta = col_metadata indexColumn \<rparr>))
      (index_columns schema)"

text \<open>\<^verbatim>\<open>getColumns\<close>. The three \<^verbatim>\<open>replace\<close> calls rewrite single characters;
  the \<^verbatim>\<open>JSON.parse\<close> of a label tuple is the parameter \<open>jsonParseLabels\<close>.\<close>

definition bracketed :: "string \<Rightarrow> string" where
  "bracketed fieldName =
    map (\<lambda>c. if c = CHR 0x28 then CHR 0x5B else if c = CHR 0x29 then CHR 0x5D
              else if c = CHR 0x27 then CHR 0x22 else c) fieldName"

definition getColumns :: "(string \<Rightarrow> string list option) \<Rightarrow> Schema \<Rightarrow> error + Columns" where
  "getColumns jsonParseLabels schema =
    (let isMultiIndex = (length (column_indexes schema) > 1)
     in case sequence
          (map (\<lambda>fieldName.
                  if isMultiIndex then
                    (case jsonParseLabels (bracketed fieldName) of
                       None \<Rightarrow> Inl SyntaxError | Some labels \<Rightarrow> Inr labels)
                  else Inr [fieldName])
               (filter (\<lambda>fieldName. FieldName fieldName \<notin> set (index_columns schema))
                       (map field_name (schema_columns schema)))) of
          Inl e \<Rightarrow> Inl e
        | Inr tuples \<Rightarrow> Inr (unzip tuples))"

text \<open>\<^verbatim>\<open>getData\<close>: the table's columns are read by position; \<^verbatim>\<open>?.\<close> gives
  \<^verbatim>\<open>undefined\<close> for a position the table has no column at.\<close>

definition getData :: "ArrowTable \<Rightarrow> Columns \<Rightarrow> jsval list list" where
  "getData table cols =
    (let rows = table_length table;
         ncols = (case cols of [] \<Rightarrow> 0 | labels # _ \<Rightarrow> length labels)
     in map (\<lambda>rowIndex.
          map (\<lambda>columnIndex.
                 case nth_opt (table_columns table) (int columnIndex) of
                   None \<Rightarrow> JUndefined
                 | Some (_, column) \<Rightarrow> column rowIndex)
              [0..<ncols])
          [0..<rows])"

definition getDataColumnType :: "ArrowTable \<Rightarrow> Schema \<Rightarrow> string list" where
  "getDataColumnType table schema =
    (if table_length table > 0 then
       map pandas_type
         (filter (\<lambda>column. FieldName (field_name column) \<notin> set (index_columns schema))
                 (schema_columns schema))
     else [])"

text \<open>The body of \<^verbatim>\<open>parseTable\<close>'s \<^verbatim>\<open>try\<close> up to the styler: schema, columns,
  index, data, in the order of the source.\<close>

definition parseFrame :: "(string \<Rightarrow> Schema option) \<Rightarrow> (string \<Rightarrow> string list option)
    \<Rightarrow> ArrowTable \<Rightarrow> error + (Index \<times> Columns \<times> Data)" where
  "parseFrame jsonParse jsonParseLabels table =
    (case getSchema jsonParse table of
       Inl e \<Rightarrow> Inl e
     | Inr schema \<Rightarrow>
        (case getColumns jsonParseLabels schema of
           Inl e \<Rightarrow> Inl e
         | Inr cols \<Rightarrow>
            (case getIndex table schema of
               Inl e \<Rightarrow> Inl e
             | Inr indexData \<Rightarrow>
                Inr (\<lparr> idx_data = indexData, idx_type = getIndexType schema \<rparr>,
                     cols,
                     \<lparr> dat_data = getData table cols,
                       dat_type = getDataColumnType table schema \<rparr>))))"

text \<open>\<^verbatim>\<open>parseTable\<close>. Its \<^verbatim>\<open>catch\<close> wraps whatever the body throws:
  \<^verbatim>\<open>throw new Error(e)\<close>. The recursive call parses the payload
  \<^verbatim>\<open>{ data: tableStyler.displayValues }\<close>, which has no styler of its own: the
  recursion is one level deep, and \<open>parseUnstyled\<close> is that inner call.\<close>

definition parseUnstyled :: "(string \<Rightarrow> Schema option) \<Rightarrow> (string \<Rightarrow> string list option)
    \<Rightarrow> ArrowTable \<Rightarrow> error + Quiver" where
  "parseUnstyled jsonParse jsonParseLabels table =
    (case parseFrame jsonParse jsonParseLabels table of
       Inl e \<Rightarrow> Inl (Rethrown e)
     | Inr (index', columns'', data') \<Rightarrow> Inr (Quiver index' columns'' data' None))"

definition parseTable :: "(string \<Rightarrow> Schema option) \<Rightarrow> (string \<Rightarrow> string list option)
    \<Rightarrow> IArrow \<Rightarrow> error + Quiver" where
  "parseTable jsonParse jsonParseLabels element =
    (case parseFrame jsonParse jsonParseLabels (ia_data element) of
       Inl e \<Rightarrow> Inl (Rethrown e)
     | Inr (index', columns'', data') \<Rightarrow>
        (case ia_styler element of
           None \<Rightarrow> Inr (Quiver index' columns'' data' None)
         | Some tableStyler \<Rightarrow>
            (case parseUnstyled jsonParse jsonParseLabels (as_displayValues tableStyler) of
               Inl e \<Rightarrow> Inl (Rethrown e)
             | Inr displayValues' \<Rightarrow>
                Inr (Quiver index' columns'' data'
                      (Some (Styler (as_uuid tableStyler) (as_caption tableStyler)
                                    (as_styles tableStyler) (Some displayValues')))))))"

section \<open>Notions of the properties, and example frames\<close>

text \<open>The two check values of \<^verbatim>\<open>dimensions\<close>: the row count the index gives (the
  length of its first level, 0 without a level) and the column count the column
  labels give (the length of the first label row, 0 without one).\<close>

definition dataRowsCheck :: "Quiver \<Rightarrow> int" where
  "dataRowsCheck q = (case idx_data (index q) of [] \<Rightarrow> 0 | l # _ \<Rightarrow> int (length l))"

definition dataColumnsCheck :: "Quiver \<Rightarrow> int" where
  "dataColumnsCheck q = (case columns q of [] \<Rightarrow> 0 | l # _ \<Rightarrow> int (length l))"

text \<open>A frame without styler whose one index level is a synthetic range, as
  \<^verbatim>\<open>parseTable\<close> builds it: the level's values, the range descriptor, the label
  rows, the body and its type tags.\<close>

definition rangeFrame :: "int list \<Rightarrow> RangeIndex \<Rightarrow> Columns \<Rightarrow> jsval list list \<Rightarrow> string list
    \<Rightarrow> Quiver" where
  "rangeFrame values r cols body tags =
    Quiver \<lparr> idx_data = [map JNum values],
             idx_type = [\<lparr> name = Some ''range'', meta = Some (rangeObject r) \<rparr>] \<rparr>
           cols \<lparr> dat_data = body, dat_type = tags \<rparr> None"

definition rangeOf :: "int \<Rightarrow> int \<Rightarrow> int \<Rightarrow> RangeIndex" where
  "rangeOf a s e = \<lparr> ri_name = None, start = a, step = s, stop = e \<rparr>"

text \<open>The two frames of the spec's example: ranges \<open>{start:0, step:1, stop:3}\<close> and
  \<open>{start:0, step:1, stop:2}\<close>, one data column.\<close>

definition frame3 :: Quiver where
  "frame3 = rangeFrame [0, 1, 2] (rangeOf 0 1 3) [[Some ''a'']]
              [[JNum 10], [JNum 11], [JNum 12]] [''int64'']"

definition frame2 :: Quiver where
  "frame2 = rangeFrame [0, 1] (rangeOf 0 1 2) [[Some ''a'']]
              [[JNum 20], [JNum 21]] [''int64'']"

text \<open>\<open>frame3\<close> styled with display values of the shape of \<open>frame2\<close>, one row
  short.\<close>

definition styledFrame :: Quiver where
  "styledFrame = Quiver (index frame3) (columns frame3) (data frame3)
                   (Some (Styler ''u'' None None (Some frame2)))"

text \<open>A frame with a column label and no rows (a table with a header only), and a frame
  whose range starts at 5.\<close>

definition headerOnly :: Quiver where
  "headerOnly = rangeFrame [] (rangeOf 0 1 0) [[Some ''a'']] [] []"

definition frameFrom5 :: Quiver where
  "frameFrom5 = rangeFrame [5, 6] (rangeOf 5 1 7) [[Some ''a'']]
                  [[JNum 1], [JNum 2]] [''int64'']"

text \<open>One row of one column; one row of two columns; and two frames of two typed
  columns, the second with a body row of one entry only.\<close>

definition oneColumn :: Quiver where
  "oneColumn = rangeFrame [0] (rangeOf 0 1 1) [[Some ''a'']] [[JNum 1]] [''int64'']"

definition twoColumns :: Quiver where
  "twoColumns = rangeFrame [0] (rangeOf 0 1 1) [[Some ''a'', Some ''b'']]
                  [[JNum 2, JStr ''x'']] [''int64'', ''unicode'']"

definition twoInts :: Quiver where
  "twoInts = rangeFrame [0] (rangeOf 0 1 1) [[Some ''a'', Some ''b'']]
               [[JNum 1, JNum 2]] [''int64'', ''int64'']"

definition shortRow :: Quiver where
  "shortRow = rangeFrame [0] (rangeOf 0 1 1) [[Some ''a'', Some ''b'']]
                [[JNum 3]] [''int64'', ''int64'']"

text \<open>Two structurally empty frames: one with a range level, one with a level of
  strings. And a frame whose index has no level at all, with one body row.\<close>

definition emptyRange :: Quiver where
  "emptyRange = rangeFrame [] (rangeOf 0 1 0) [] [] []"

definition emptyUnicode :: Quiver where
  "emptyUnicode =
    Quiver \<lparr> idx_data = [[]], idx_type = [\<lparr> name = Some ''unicode'', meta = None \<rparr>] \<rparr>
           [] \<lparr> dat_data = [], dat_type = [] \<rparr> None"

definition noLevels :: Quiver where
  "noLevels =
    Quiver \<lparr> idx_data = [], idx_type = [] \<rparr>
           [[Some ''a'']] \<lparr> dat_data = [[JNum 2]], dat_type = [''int64''] \<rparr> None"

text \<open>A body of three rows under an index of two: the dimensions do not align.\<close>

definition misaligned :: Quiver where
  "misaligned = rangeFrame [0, 1] (rangeOf 0 1 2) [[Some ''a'']]
                  [[JNum 1], [JNum 2], [JNum 3]] [''int64'']"

text \<open>A formatter for the examples: the value as a string, whatever the type tag.\<close>

definition plainFormat :: "jsval \<Rightarrow> string option \<Rightarrow> string" where
  "plainFormat v t = toStr v"

text \<open>One row of one column of strings.\<close>

definition oneText :: Quiver where
  "oneText = rangeFrame [0] (rangeOf 0 1 1) [[Some ''a'']] [[JStr ''x'']] [''unicode'']"

text \<open>A table of two rows and one column \<open>a\<close> under a synthetic range index, with and
  without the schema entry in its metadata. The schema text is abbreviated to
  \<open>schema\<close>, and \<open>exampleParse\<close> is \<^verbatim>\<open>JSON.parse\<close> on it.\<close>

definition exampleSchema :: Schema where
  "exampleSchema =
    \<lparr> index_columns = [RangeField (rangeOf 0 1 2)],
      schema_columns = [\<lparr> field_name = ''a'', col_metadata = None, col_name = Some ''a'',
                          numpy_type = ''int64'', pandas_type = ''int64'' \<rparr>],
      column_indexes = [[(''name'', JNull)]] \<rparr>"

definition exampleParse :: "string \<Rightarrow> Schema option" where
  "exampleParse text = (if text = ''schema'' then Some exampleSchema else None)"

definition exampleLabels :: "string \<Rightarrow> string list option" where
  "exampleLabels text = None"

definition tableWithSchema :: ArrowTable where
  "tableWithSchema =
    \<lparr> metadata = [(''pandas'', ''schema'')], table_length = 2,
      table_columns = [(''a'', \<lambda>rowIndex. JNum (20 + int rowIndex))] \<rparr>"

definition tableWithoutSchema :: ArrowTable where
  "tableWithoutSchema =
    \<lparr> metadata = [], table_length = 2,
      table_columns = [(''a'', \<lambda>rowIndex. JNum (20 + int rowIndex))] \<rparr>"

section \<open>Facts about the dimensions\<close>

lemmas frame_defs = rangeFrame_def rangeOf_def rangeObject_def frame3_def frame2_def
  styledFrame_def headerOnly_def frameFrom5_def oneColumn_def twoColumns_def twoInts_def
  shortRow_def emptyRange_def emptyUnicode_def noLevels_def misaligned_def oneText_def

lemma dimensions_Inr:
  assumes "dimensions q = Inr d"
  shows "rows d = headerRows d + dataRows d"
    and "columns' d = headerColumns d + dataColumns d"
    and "headerColumns d = int (length (idx_data (index q)))"
    and "headerRows d = (if columns q = [] then 1 else int (length (columns q)))"
    and "dataRows d = int (length (dat_data (data q)))"
    and "dataColumns d =
          (case dat_data (data q) of [] \<Rightarrow> dataColumnsCheck q | r # _ \<Rightarrow> int (length r))"
    and "dataRows d = 0 \<or> dataRows d = dataRowsCheck q"
    and "dataColumns d = 0 \<or> dataColumns d = dataColumnsCheck q"
  using assms
  by (auto simp: dimensions_def dataRowsCheck_def dataColumnsCheck_def Let_def
           split: list.splits if_splits)



lemma dimensions_frame3:
  "dimensions frame3 = Inr \<lparr> headerRows = 1, headerColumns = 1, dataRows = 3,
                             dataColumns = 1, rows = 4, columns' = 2 \<rparr>"
  by (simp add: dimensions_def frame_defs)

lemma dimensions_styledFrame:
  "dimensions styledFrame = Inr \<lparr> headerRows = 1, headerColumns = 1, dataRows = 3,
                                  dataColumns = 1, rows = 4, columns' = 2 \<rparr>"
  by (simp add: dimensions_def frame_defs)



section \<open>Facts about cell addressing\<close>

lemma nth_opt_Some: "0 \<le> i \<Longrightarrow> i < int (length xs) \<Longrightarrow> \<exists>x. nth_opt xs i = Some x"
  by (simp add: nth_opt_def)



lemma getCell_cellType_regions:
  assumes "dimensions q = Inr d" "0 \<le> r" "r < rows d" "0 \<le> c" "c < columns' d"
    and "getCell fmt q r c = Inr cell"
  shows "r < headerRows d \<Longrightarrow> c < headerColumns d \<Longrightarrow> cellType cell = Blank"
    and "r \<ge> headerRows d \<Longrightarrow> c < headerColumns d \<Longrightarrow> cellType cell = IndexCell"
    and "r < headerRows d \<Longrightarrow> c \<ge> headerColumns d \<Longrightarrow> cellType cell = ColumnsCell"
    and "r \<ge> headerRows d \<Longrightarrow> c \<ge> headerColumns d \<Longrightarrow> cellType cell = DataCell"
  using assms
  by (cases q; auto simp: Let_def split: option.splits sum.splits Styler.splits)+

lemma getCell_cellType:
  assumes "dimensions q = Inr d" "0 \<le> r" "r < rows d" "0 \<le> c" "c < columns' d"
    and "getCell fmt q r c = Inr cell"
  shows "cellType cell =
    (if r < headerRows d \<and> c < headerColumns d then Blank
     else if r \<ge> headerRows d \<and> c < headerColumns d then IndexCell
     else if r < headerRows d \<and> c \<ge> headerColumns d then ColumnsCell
     else DataCell)"
  using getCell_cellType_regions[OF assms] by auto

lemma columns_region_has_labels:
  assumes "dimensions q = Inr d" "headerColumns d \<le> c" "c < columns' d"
  shows "columns q \<noteq> []"
proof
  assume "columns q = []"
  then have "dataColumnsCheck q = 0" by (simp add: dataColumnsCheck_def)
  with dimensions_Inr(8)[OF assms(1)] have "dataColumns d = 0" by auto
  with dimensions_Inr(2)[OF assms(1)] assms(2,3) show False by simp
qed

text \<open>A cell is returned inside the grid when the frame has a type for each index level
  and no display values.\<close>

lemma getCell_returns:
  assumes dims: "dimensions q = Inr d" and r: "0 \<le> r" "r < rows d"
    and c: "0 \<le> c" "c < columns' d"
    and types: "length (idx_data (index q)) \<le> length (idx_type (index q))"
    and plain: "case styler q of None \<Rightarrow> True | Some s \<Rightarrow> displayValues s = None"
  shows "\<exists>cell. getCell fmt q r c = Inr cell"
proof (cases q)
  case (Quiver idx cols dat sty)
  note d = dimensions_Inr[OF dims]
  have hc: "headerColumns d = int (length (idx_data idx))" using d(3) Quiver by simp
  have hr: "headerRows d = (if cols = [] then 1 else int (length cols))"
    using d(4) Quiver by simp
  have dr: "dataRows d = int (length (dat_data dat))" using d(5) Quiver by simp
  have dims': "dimensions (Quiver idx cols dat sty) = Inr d" using dims Quiver by simp
  show ?thesis
  proof (cases "c < headerColumns d")
    case left: True
    show ?thesis
    proof (cases "r < headerRows d")
      case True
      with left r c dims' show ?thesis unfolding Quiver by simp
    next
      case False
      from left c hc types Quiver obtain t where t: "nth_opt (idx_type idx) c = Some t"
        using nth_opt_Some[of c "idx_type idx"] by auto
      from left c hc obtain l where l: "nth_opt (idx_data idx) c = Some l"
        using nth_opt_Some[of c "idx_data idx"] by auto
      from False left r c dims' t l show ?thesis unfolding Quiver by (simp add: Let_def)
    qed
  next
    case right: False
    show ?thesis
    proof (cases "r < headerRows d")
      case True
      have "cols \<noteq> []" using columns_region_has_labels[OF dims _ c(2)] right Quiver by simp
      with hr True r obtain ls where ls: "nth_opt cols r = Some ls"
        using nth_opt_Some[of r cols] by auto
      from right True r c dims' ls show ?thesis unfolding Quiver by (simp add: Let_def)
    next
      case below: False
      from below r d(1) dr obtain row
        where row: "nth_opt (dat_data dat) (r - headerRows d) = Some row"
        using nth_opt_Some[of "r - headerRows d" "dat_data dat"] by auto
      have "sty = None \<or> (\<exists>u cap st. sty = Some (Styler u cap st None))"
      proof (cases sty)
        case None
        then show ?thesis by simp
      next
        case (Some s)
        with plain Quiver show ?thesis by (cases s) auto
      qed
      with right below r c dims' row show ?thesis unfolding Quiver by (auto simp: Let_def)
    qed
  qed
qed


text \<open>
  \<^bold>\<open>C5\<close>. For a frame whose dimensions are \<open>d\<close> and a coordinate pair inside the grid,
  every cell that \<^verbatim>\<open>getCell\<close> returns has the type of its region, in the source's
  order of tests: blank when row and column are both in the header, index when only the
  column is, columns when only the row is, data otherwise. In particular a cell returned
  at \<open>(headerRows, headerColumns)\<close> is a data cell. And a cell is returned for every such
  pair when the frame has a type for each index level and no display values.
\<close>

theorem getCell_classifies:
  assumes "dimensions q = Inr d" "0 \<le> r" "r < rows d" "0 \<le> c" "c < columns' d"
  shows "(\<forall>cell. getCell fmt q r c = Inr cell \<longrightarrow>
            cellType cell =
              (if r < headerRows d \<and> c < headerColumns d then Blank
               else if r \<ge> headerRows d \<and> c < headerColumns d then IndexCell
               else if r < headerRows d \<and> c \<ge> headerColumns d then ColumnsCell
               else DataCell)) \<and>
         (\<forall>cell. r = headerRows d \<and> c = headerColumns d \<and> getCell fmt q r c = Inr cell \<longrightarrow>
            cellType cell = DataCell) \<and>
         (length (idx_data (index q)) \<le> length (idx_type (index q)) \<and>
          (case styler q of None \<Rightarrow> True | Some s \<Rightarrow> displayValues s = None) \<longrightarrow>
            (\<exists>cell. getCell fmt q r c = Inr cell))"
proof (intro conjI allI impI)
  fix cell assume "getCell fmt q r c = Inr cell"
  from getCell_cellType[OF assms this]
  show "cellType cell =
              (if r < headerRows d \<and> c < headerColumns d then Blank
               else if r \<ge> headerRows d \<and> c < headerColumns d then IndexCell
               else if r < headerRows d \<and> c \<ge> headerColumns d then ColumnsCell
               else DataCell)" .
next
  fix cell assume a: "r = headerRows d \<and> c = headerColumns d \<and> getCell fmt q r c = Inr cell"
  then have g: "getCell fmt q r c = Inr cell" by (rule conjunct2[OF conjunct2])
  from getCell_cellType[OF assms g] a show "cellType cell = DataCell" by simp
next
  assume "length (idx_data (index q)) \<le> length (idx_type (index q)) \<and>
          (case styler q of None \<Rightarrow> True | Some s \<Rightarrow> displayValues s = None)"
  then show "\<exists>cell. getCell fmt q r c = Inr cell"
    using getCell_returns[OF assms] by blast
qed

theorem getCell_classifies_witness:
  "(\<exists>cell. getCell plainFormat frame3 1 1 = Inr cell \<and> cellType cell = DataCell) \<and>
   (\<exists>cell. getCell plainFormat frame3 0 0 = Inr cell \<and> cellType cell = Blank) \<and>
   (\<exists>cell. getCell plainFormat frame3 3 0 = Inr cell \<and> cellType cell = IndexCell) \<and>
   (\<exists>cell. getCell plainFormat frame3 0 1 = Inr cell \<and> cellType cell = ColumnsCell)"
proof -
  have wf: "length (idx_data (index frame3)) \<le> length (idx_type (index frame3)) \<and>
          (case styler frame3 of None \<Rightarrow> True | Some s \<Rightarrow> displayValues s = None)"
    by (simp add: frame_defs)
  have "\<exists>cell. getCell plainFormat frame3 r c = Inr cell \<and>
          cellType cell = (if r < 1 \<and> c < 1 then Blank
               else if r \<ge> 1 \<and> c < 1 then IndexCell
               else if r < 1 \<and> c \<ge> 1 then ColumnsCell
               else DataCell)"
    if "0 \<le> r" "r < 4" "0 \<le> c" "c < 2" for r c
  proof -
    from that have rc: "0 \<le> r" "r < rows \<lparr> headerRows = 1, headerColumns = 1, dataRows = 3,
                             dataColumns = 1, rows = 4, columns' = 2 \<rparr>" "0 \<le> c" "c < columns' \<lparr> headerRows = 1, headerColumns = 1, dataRows = 3,
                             dataColumns = 1, rows = 4, columns' = 2 \<rparr>"
      by simp_all
    note T = getCell_classifies [OF dimensions_frame3 rc, of plainFormat]
    from T wf obtain cell where "getCell plainFormat frame3 r c = Inr cell" by blast
    with T show ?thesis by simp
  qed
  from this[of 1 1] this[of 0 0] this[of 3 0] this[of 0 1] show ?thesis by simp
qed




section \<open>Facts about comparison\<close>



section \<open>Facts about concatenation\<close>









text \<open>\<^verbatim>\<open>sameDataColumnTypes\<close> is the prefix test.\<close>

lemma sameDataColumnTypes_from:
  "list_all (\<lambda>(index, firstTypeValue). nth_opt ys (int index) = Some firstTypeValue)
            (enumerate n xs) \<longleftrightarrow> prefix xs (drop n ys)"
proof (induction xs arbitrary: n)
  case Nil
  then show ?case by simp
next
  case (Cons x xs)
  show ?case
  proof (cases "n < length ys")
    case True
    then have "drop n ys = ys ! n # drop (Suc n) ys" by (simp add: Cons_nth_drop_Suc)
    with True Cons.IH[of "Suc n"] show ?thesis by (auto simp: nth_opt_def)
  next
    case False
    then show ?thesis by (simp add: nth_opt_def)
  qed
qed

lemma sameDataColumnTypes_prefix: "sameDataColumnTypes xs ys \<longleftrightarrow> prefix xs ys"
  using sameDataColumnTypes_from[of ys 0 xs] by (simp add: sameDataColumnTypes_def)

text \<open>The index merge raises a \<open>TypeError\<close> or the index-type mismatch, nothing else.\<close>

lemma concatRangeIndex_errors: "concatRangeIndex f s t = Inl e \<Longrightarrow> e = TypeError"
  by (auto simp: concatRangeIndex_def Let_def split: option.splits prod.splits)

lemma concatAnyIndex_errors: "concatAnyIndex f s t = Inl e \<Longrightarrow> e = TypeError"
  by (auto simp: concatAnyIndex_def Let_def split: option.splits if_splits)

lemma concatIndex_errors: "concatIndex f s t = Inl e \<Longrightarrow> e = TypeError"
  by (auto simp: concatIndex_def split: option.splits if_splits
           dest: concatRangeIndex_errors concatAnyIndex_errors)

lemma concatIndices_reduce_errors:
  "concatIndices_reduce a b levels i acc = Inl e \<Longrightarrow> e = TypeError"
  by (induction levels arbitrary: i acc)
     (auto split: sum.splits dest: concatIndex_errors)

lemma concatIndices_errors:
  "concatIndices a b = Inl e \<Longrightarrow> e = TypeError \<or> e = IndexTypeMismatch (idx_type a) (idx_type b)"
  by (auto simp: concatIndices_def simp del: concatIndices_reduce.simps
           split: list.splits if_splits dest: concatIndices_reduce_errors)

lemma concatData_result:
  "concatData a b =
     (if prefix (dat_type a) (dat_type b)
      then Inr \<lparr> dat_data = dat_data a @ map (take (length (dat_type a))) (dat_data b),
                 dat_type = dat_type a \<rparr>
      else Inl (DataTypeMismatch (dat_type a) (dat_type b)))"
  by (simp add: concatData_def sameDataColumnTypes_prefix)

lemma concatTables_nonempty:
  assumes "styler b = None" "styler a = None" "isEmptyDf b = Inr False" "isEmptyDf a = Inr False"
  shows "concatTables b a =
    (case concatIndices (index b) (index a) of
       Inl e \<Rightarrow> Inl e
     | Inr ix \<Rightarrow>
        (case concatData (data b) (data a) of
           Inl e \<Rightarrow> Inl e
         | Inr d \<Rightarrow> Inr (Quiver ix (columns b) d None)))"
  using assms by (simp add: concatTables_def)




text \<open>
  \<^bold>\<open>C2\<close>, as amended. For two frames without styler, neither structurally empty,
  \<^verbatim>\<open>concatTables\<close> fails with a data-type mismatch exactly when the index merge
  succeeds and the base's type tags are not a prefix of the addition's (the addition may
  have more tags). The error carries the two tag sequences. Identical tag sequences never
  give this error.
\<close>

theorem concatTables_data_type_mismatch:
  assumes "styler b = None" "styler a = None"
    and "isEmptyDf b = Inr False" "isEmptyDf a = Inr False"
  shows "((\<exists>t1 t2. concatTables b a = Inl (DataTypeMismatch t1 t2)) \<longleftrightarrow>
            (\<exists>ix. concatIndices (index b) (index a) = Inr ix) \<and>
            \<not> prefix (dat_type (data b)) (dat_type (data a))) \<and>
         (\<forall>t1 t2. concatTables b a = Inl (DataTypeMismatch t1 t2) \<longrightarrow>
            t1 = dat_type (data b) \<and> t2 = dat_type (data a)) \<and>
         (dat_type (data b) = dat_type (data a) \<longrightarrow>
            (\<forall>t1 t2. concatTables b a \<noteq> Inl (DataTypeMismatch t1 t2)))"
proof -
  note ct = concatTables_nonempty[OF assms]
  show ?thesis
  proof (cases "concatIndices (index b) (index a)")
    case (Inl e)
    from concatIndices_errors[OF Inl] have "\<And>t1 t2. e \<noteq> DataTypeMismatch t1 t2" by auto
    with ct Inl show ?thesis by auto
  next
    case (Inr ix)
    with ct show ?thesis by (auto simp: concatData_result)
  qed
qed

theorem concatTables_data_type_mismatch_witness:
  "concatTables oneColumn oneText = Inl (DataTypeMismatch [''int64''] [''unicode'']) \<and>
   (\<exists>ix. concatIndices (index oneColumn) (index oneText) = Inr ix) \<and>
   \<not> prefix (dat_type (data oneColumn)) (dat_type (data oneText))"
proof -
  have 1: "styler oneColumn = None" "styler oneText = None"
    "isEmptyDf oneColumn = Inr False" "isEmptyDf oneText = Inr False"
    by (simp_all add: frame_defs oneText_def isEmptyDf_def)
  have "concatIndices (index oneColumn) (index oneText) =
       Inr \<lparr> idx_data = [[JNum 0, JNum 1]],
             idx_type = [\<lparr> name = Some ''range'',
                            meta = Some (rangeObject (rangeOf 0 1 2)) \<rparr>] \<rparr>"
    by code_simp
  then have 2: "\<exists>ix. concatIndices (index oneColumn) (index oneText) = Inr ix" by simp
  have 3: "\<not> prefix (dat_type (data oneColumn)) (dat_type (data oneText))"
    by (simp add: frame_defs oneText_def)
  have 4: "dat_type (data oneColumn) = [''int64'']" "dat_type (data oneText) = [''unicode'']"
    by (simp_all add: frame_defs oneText_def)
  from concatTables_data_type_mismatch [OF 1] 2 3 4 show ?thesis by metis
qed

text \<open>The claim as stated fails for its own example: the base has the tags
  \<open>["int64"]\<close>, the addition \<open>["int64", "unicode"]\<close>, and the concatenation returns a
  frame.\<close>

theorem concatTables_data_type_mismatch_counterexample:
  "styler oneColumn = None \<and> styler twoColumns = None \<and>
   isEmptyDf oneColumn = Inr False \<and> isEmptyDf twoColumns = Inr False \<and>
   dat_type (data oneColumn) = [''int64''] \<and>
   dat_type (data twoColumns) = [''int64'', ''unicode''] \<and>
   concatTables oneColumn twoColumns =
     Inr (Quiver \<lparr> idx_data = [[JNum 0, JNum 1]],
                   idx_type = [\<lparr> name = Some ''range'',
                                  meta = Some (rangeObject (rangeOf 0 1 2)) \<rparr>] \<rparr>
                 [[Some ''a'']]
                 \<lparr> dat_data = [[JNum 1], [JNum 2]], dat_type = [''int64''] \<rparr> None)"
  by (intro conjI; code_simp)




text \<open>
  \<^bold>\<open>C4\<close>, as amended. Let \<open>F\<close> and \<open>G\<close> be frames without styler, \<open>F\<close> with no data
  row, no entry in its first index level and no column label. Then
  \<^verbatim>\<open>concatTables(F, G)\<close> returns \<open>G\<close>. \<^verbatim>\<open>concatTables(G, F)\<close> returns \<open>G\<close> when \<open>G\<close>
  is not structurally empty; it returns \<open>F\<close> when \<open>G\<close> is structurally empty too; and it
  fails with a \<open>TypeError\<close> when the emptiness test of \<open>G\<close> does (no data row and no
  index level).
\<close>

theorem concatTables_empty:
  assumes "styler F = None" "styler G = None"
    and "dat_data (data F) = []" "idx_data (index F) = [] # ls" "columns F = []"
  shows "concatTables F G = Inr G \<and>
         (isEmptyDf G = Inr False \<longrightarrow> concatTables G F = Inr G) \<and>
         (isEmptyDf G = Inr True \<longrightarrow> concatTables G F = Inr F) \<and>
         (isEmptyDf G = Inl TypeError \<longrightarrow> concatTables G F = Inl TypeError)"
proof -
  have "isEmptyDf F = Inr True" using assms(3-5) by (simp add: isEmptyDf_def)
  with assms(1,2) show ?thesis by (simp add: concatTables_def)
qed

theorem concatTables_empty_witness:
  "concatTables emptyRange frame3 = Inr frame3 \<and> concatTables frame3 emptyRange = Inr frame3 \<and>
   concatTables emptyUnicode emptyRange = Inr emptyRange"
proof -
  have 1: "styler emptyRange = None" "styler frame3 = None"
    "dat_data (data emptyRange) = []" "idx_data (index emptyRange) = [] # []"
    "columns emptyRange = []"
    by (simp_all add: frame_defs)
  have 2: "isEmptyDf frame3 = Inr False" "isEmptyDf emptyUnicode = Inr True"
    "styler emptyUnicode = None"
    by (simp_all add: frame_defs isEmptyDf_def)
  from concatTables_empty [OF 1] concatTables_empty [OF 1(1) 2(3) 1(3-5)] 2 show ?thesis by simp
qed

text \<open>The claim as stated fails when \<open>G\<close> is structurally empty as well:
  \<^verbatim>\<open>concatTables(G, F)\<close> returns \<open>F\<close>, which need not be \<open>G\<close>.\<close>

theorem concatTables_empty_counterexample:
  "styler emptyRange = None \<and> styler emptyUnicode = None \<and>
   dat_data (data emptyRange) = [] \<and> idx_data (index emptyRange) = [[]] \<and>
   columns emptyRange = [] \<and>
   concatTables emptyUnicode emptyRange = Inr emptyRange \<and> emptyRange \<noteq> emptyUnicode"
  by (simp add: frame_defs isEmptyDf_def concatTables_def)

text \<open>
  \<^bold>\<open>C10\<close>, as amended. The emptiness test reads the first index level only of a frame
  with no data row. For two frames without styler: when the base's index has no level,
  \<^verbatim>\<open>concatTables\<close> fails with a \<open>TypeError\<close>, except that it returns the base itself
  when the base has data rows and the addition is structurally empty. When the
  addition's index has no level and it has no data row, the call fails with a
  \<open>TypeError\<close> for a base that is not structurally empty. An addition without index
  level that has data rows passes the emptiness test as not empty, and the index merge
  decides (it may raise an index-type mismatch).
\<close>

theorem concatTables_no_index_level:
  assumes "styler b = None" "styler a = None"
  shows "(idx_data (index b) = [] \<longrightarrow>
            concatTables b a = Inl TypeError \<or>
            (dat_data (data b) \<noteq> [] \<and> isEmptyDf a = Inr True \<and> concatTables b a = Inr b)) \<and>
         (idx_data (index a) = [] \<and> dat_data (data a) = [] \<and> isEmptyDf b = Inr False \<longrightarrow>
            concatTables b a = Inl TypeError) \<and>
         (idx_data (index a) = [] \<and> dat_data (data a) \<noteq> [] \<longrightarrow> isEmptyDf a = Inr False)"
proof (intro conjI impI)
  assume nb: "idx_data (index b) = []"
  show "concatTables b a = Inl TypeError \<or>
            (dat_data (data b) \<noteq> [] \<and> isEmptyDf a = Inr True \<and> concatTables b a = Inr b)"
  proof (cases "dat_data (data b) = []")
    case True
    with nb have "isEmptyDf b = Inl TypeError" by (simp add: isEmptyDf_def)
    with assms show ?thesis by (simp add: concatTables_def)
  next
    case False
    with nb have eb: "isEmptyDf b = Inr False" by (simp add: isEmptyDf_def)
    have ci: "concatIndices (index b) (index a) = Inl TypeError"
      using nb by (simp add: concatIndices_def)
    have "isEmptyDf a = Inl TypeError \<or> isEmptyDf a = Inr True \<or> isEmptyDf a = Inr False"
      by (auto simp: isEmptyDf_def split: list.splits)
    with assms eb ci False show ?thesis by (auto simp: concatTables_def)
  qed
next
  assume "idx_data (index a) = [] \<and> dat_data (data a) = [] \<and> isEmptyDf b = Inr False"
  then have "isEmptyDf a = Inl TypeError" "isEmptyDf b = Inr False" by (simp_all add: isEmptyDf_def)
  with assms show "concatTables b a = Inl TypeError" by (simp add: concatTables_def)
next
  assume "idx_data (index a) = [] \<and> dat_data (data a) \<noteq> []"
  then show "isEmptyDf a = Inr False" by (simp add: isEmptyDf_def)
qed

theorem concatTables_no_index_level_witness:
  "concatTables noLevels frame3 = Inl TypeError"
proof -
  have 1: "styler noLevels = None" "styler frame3 = None" "idx_data (index noLevels) = []"
    by (simp_all add: frame_defs)
  have 2: "isEmptyDf frame3 = Inr False" by (simp add: frame_defs isEmptyDf_def)
  from concatTables_no_index_level [OF 1(1,2)] 1(3) 2 show ?thesis by auto
qed

text \<open>The claim as stated fails for an addition with data rows and no index level:
  the emptiness test does not read its index, and the call raises an index-type
  mismatch, one of the specified concatenation errors.\<close>

theorem concatTables_no_index_level_counterexample:
  "styler oneColumn = None \<and> styler noLevels = None \<and> idx_data (index noLevels) = [] \<and>
   concatTables oneColumn noLevels =
     Inl (IndexTypeMismatch
            [\<lparr> name = Some ''range'', meta = Some (rangeObject (rangeOf 0 1 1)) \<rparr>] [])"
  by (simp add: frame_defs isEmptyDf_def concatTables_def concatIndices_def sameIndexTypes_def)

section \<open>Facts about parsing\<close>

lemma sequence_errors: "sequence xs = Inl e \<Longrightarrow> Inl e \<in> set xs"
  by (induction xs arbitrary: e) (auto split: sum.splits)

lemma getColumns_errors: "getColumns jl schema = Inl e \<Longrightarrow> e = SyntaxError"
  by (auto simp: getColumns_def Let_def split: sum.splits if_splits option.splits
           dest!: sequence_errors)

lemma getIndex_errors: "getIndex table schema = Inl e \<Longrightarrow> e = TypeError"
  by (auto simp: getIndex_def split: IndexField.splits option.splits dest!: sequence_errors)

lemma getSchema_missing:
  "getSchema jp table = Inl SchemaMissing \<longleftrightarrow> map_of (metadata table) ''pandas'' = None"
  by (auto simp: getSchema_def split: option.splits)

lemma parseFrame_missing:
  "parseFrame jp jl table = Inl SchemaMissing \<longleftrightarrow> map_of (metadata table) ''pandas'' = None"
proof
  assume "parseFrame jp jl table = Inl SchemaMissing"
  then have "getSchema jp table = Inl SchemaMissing"
    by (auto simp: parseFrame_def split: sum.splits dest: getColumns_errors getIndex_errors)
  then show "map_of (metadata table) ''pandas'' = None" by (simp add: getSchema_missing)
next
  assume "map_of (metadata table) ''pandas'' = None"
  then have "getSchema jp table = Inl SchemaMissing" by (simp add: getSchema_missing)
  then show "parseFrame jp jl table = Inl SchemaMissing" by (simp add: parseFrame_def)
qed

lemma parseTable_errors:
  "parseTable jp jl element = Inl e \<Longrightarrow>
     e = Rethrown SchemaMissing \<Longrightarrow> parseFrame jp jl (ia_data element) = Inl SchemaMissing"
  by (auto simp: parseTable_def parseUnstyled_def split: sum.splits option.splits prod.splits)

text \<open>
  \<^bold>\<open>C8\<close>. For a payload whose table has no entry \<^verbatim>\<open>"pandas"\<close> in its metadata
  map, \<^verbatim>\<open>getSchema\<close> raises the schema-missing error and \<^verbatim>\<open>parseTable\<close> fails
  with it (wrapped once by its \<^verbatim>\<open>catch\<close>), returning no frame. For a payload whose
  table has the entry, \<^verbatim>\<open>getSchema\<close> does not raise that error on it and
  \<^verbatim>\<open>parseTable\<close> does not fail with it. (A styler's display-values table is a
  payload of its own: without the entry, the outer parse fails with the error wrapped
  twice.)
\<close>

theorem parseTable_schema_missing:
  "(map_of (metadata (ia_data element)) ''pandas'' = None \<longrightarrow>
      getSchema jp (ia_data element) = Inl SchemaMissing \<and>
      parseTable jp jl element = Inl (Rethrown SchemaMissing)) \<and>
   (map_of (metadata (ia_data element)) ''pandas'' \<noteq> None \<longrightarrow>
      getSchema jp (ia_data element) \<noteq> Inl SchemaMissing \<and>
      parseTable jp jl element \<noteq> Inl (Rethrown SchemaMissing))"
proof (intro conjI impI)
  assume none: "map_of (metadata (ia_data element)) ''pandas'' = None"
  then show "getSchema jp (ia_data element) = Inl SchemaMissing" by (simp add: getSchema_missing)
  from none have "parseFrame jp jl (ia_data element) = Inl SchemaMissing"
    by (simp add: parseFrame_missing)
  then show "parseTable jp jl element = Inl (Rethrown SchemaMissing)"
    by (simp add: parseTable_def)
next
  assume some: "map_of (metadata (ia_data element)) ''pandas'' \<noteq> None"
  then show "getSchema jp (ia_data element) \<noteq> Inl SchemaMissing" by (simp add: getSchema_missing)
  from some have "parseFrame jp jl (ia_data element) \<noteq> Inl SchemaMissing"
    by (simp add: parseFrame_missing)
  then show "parseTable jp jl element \<noteq> Inl (Rethrown SchemaMissing)"
    using parseTable_errors[of jp jl element "Rethrown SchemaMissing"] by blast
qed

theorem parseTable_schema_missing_witness:
  "parseTable exampleParse exampleLabels \<lparr> ia_data = tableWithoutSchema, ia_styler = None \<rparr>
     = Inl (Rethrown SchemaMissing) \<and>
   parseTable exampleParse exampleLabels \<lparr> ia_data = tableWithSchema, ia_styler = None \<rparr>
     = Inr frame2 \<and>
   parseTable exampleParse exampleLabels
     \<lparr> ia_data = tableWithSchema,
       ia_styler = Some \<lparr> as_uuid = ''u'', as_caption = None, as_styles = None,
                          as_displayValues = tableWithoutSchema \<rparr> \<rparr>
     = Inl (Rethrown (Rethrown SchemaMissing))"
proof -
  have 1: "map_of (metadata (ia_data \<lparr> ia_data = tableWithoutSchema, ia_styler = None \<rparr>)) ''pandas'' = None"
    by (simp add: tableWithoutSchema_def)
  have 2: "parseTable exampleParse exampleLabels \<lparr> ia_data = tableWithSchema, ia_styler = None \<rparr>
     = Inr frame2"
    by code_simp
  have 3: "parseTable exampleParse exampleLabels
     \<lparr> ia_data = tableWithSchema,
       ia_styler = Some \<lparr> as_uuid = ''u'', as_caption = None, as_styles = None,
                          as_displayValues = tableWithoutSchema \<rparr> \<rparr>
     = Inl (Rethrown (Rethrown SchemaMissing))"
    by code_simp
  from parseTable_schema_missing [of "\<lparr> ia_data = tableWithoutSchema, ia_styler = None \<rparr>"
        exampleParse exampleLabels] 1 2 3
  show ?thesis by simp
qed

end
